theory Spec2Isabelle
  imports Complex_Main "HOL-Library.Log_Nat"
begin

section \<open>JavaScript values\<close>

text \<open>
  The handlers of \<^verbatim>\<open>routes/reports.ts\<close> receive untyped JSON (\<^verbatim>\<open>any\<close>): the response of the
  AI service and the request body. A JavaScript number is a finite double, NaN or an
  infinity; every finite double is a rational, and \<open>Fin\<close> admits every rational.
\<close>

datatype jsnum = Fin rat | NaN | PosInf | NegInf

datatype jsval =
    JUndefined
  | JNull
  | JBool bool
  | JNum jsnum
  | JStr string
  | JArr "jsval list"
  | JObj "(string \<times> jsval) list"

text \<open>
  The conversions between strings and numbers belong to the JavaScript runtime, not to the
  repository. They are parameters of the model: every theorem below holds for each runtime.
\<close>

record runtime =
  StringToNumber :: "string \<Rightarrow> jsnum"
  ArrayToString :: "jsval list \<Rightarrow> string"
  NumberToString :: "jsnum \<Rightarrow> string"

text \<open>
  \<^verbatim>\<open>v?.k\<close> for the property names the handlers read (\<^verbatim>\<open>transparencyScore\<close>, \<^verbatim>\<open>score\<close>,
  \<^verbatim>\<open>questions\<close>, \<^verbatim>\<open>expectedQuestions\<close>, \<^verbatim>\<open>summary\<close>, \<^verbatim>\<open>analysis\<close>, \<^verbatim>\<open>strengths\<close>, ...): none of
  them is a property of an array, a string, a number or a boolean, and optional chaining
  gives \<^verbatim>\<open>undefined\<close> on \<^verbatim>\<open>null\<close> and \<^verbatim>\<open>undefined\<close>.
\<close>

fun get_prop :: "jsval \<Rightarrow> string \<Rightarrow> jsval" where
  "get_prop (JObj kvs) k = (case map_of kvs k of Some v \<Rightarrow> v | None \<Rightarrow> JUndefined)"
| "get_prop _ k = JUndefined"

text \<open>\<^verbatim>\<open>a ?? b\<close>\<close>

fun nullish :: "jsval \<Rightarrow> jsval \<Rightarrow> jsval" where
  "nullish JUndefined b = b"
| "nullish JNull b = b"
| "nullish a b = a"

text \<open>\<^verbatim>\<open>Number(v)\<close>; a plain object converts to NaN.\<close>

fun Number :: "runtime \<Rightarrow> jsval \<Rightarrow> jsnum" where
  "Number rt JUndefined = NaN"
| "Number rt JNull = Fin 0"
| "Number rt (JBool b) = Fin (if b then 1 else 0)"
| "Number rt (JNum n) = n"
| "Number rt (JStr s) = StringToNumber rt s"
| "Number rt (JArr xs) = StringToNumber rt (ArrayToString rt xs)"
| "Number rt (JObj kvs) = NaN"

text \<open>\<^verbatim>\<open>Number.isFinite(n)\<close>\<close>

fun Number_isFinite :: "jsnum \<Rightarrow> bool" where
  "Number_isFinite (Fin x) = True"
| "Number_isFinite n = False"

text \<open>\<^verbatim>\<open>Object.keys(v).length\<close> behind the guard \<^verbatim>\<open>v && typeof v === 'object'\<close>.\<close>

fun object_keys_count :: "jsval \<Rightarrow> nat" where
  "object_keys_count (JObj kvs) = length (remdups (map fst kvs))"
| "object_keys_count (JArr xs) = length xs"
| "object_keys_count _ = 0"

subsection \<open>Strings\<close>

text \<open>
  \<^verbatim>\<open>toLowerCase\<close> and \<^verbatim>\<open>includes\<close> on strings of ASCII characters (the categories of the
  Product schema are ASCII).
\<close>

definition lower_char :: "char \<Rightarrow> char" where
  "lower_char c = (let n = (of_char c :: nat) in if 65 \<le> n \<and> n \<le> 90 then char_of (n + 32) else c)"

definition toLowerCase :: "string \<Rightarrow> string" where
  "toLowerCase s = map lower_char s"

fun includes_str :: "string \<Rightarrow> string \<Rightarrow> bool" where
  "includes_str [] sub = (sub = [])"
| "includes_str (c # cs) sub = (take (length sub) (c # cs) = sub \<or> includes_str cs sub)"

section \<open>Double arithmetic\<close>

text \<open>
  JavaScript arithmetic is IEEE 754 binary64: the exact result of each operation is rounded
  to the nearest double, ties to the even significand. \<open>fl\<close> is that rounding on the normal
  range (53 significant bits); every intermediate value of the scorer lies in it, so
  neither overflow nor subnormal numbers are modelled.
\<close>

definition ilog2 :: "rat \<Rightarrow> int" where
  "ilog2 x = (case quotient_of x of (p, q) \<Rightarrow>
     (let d = bitlen p - bitlen q in if 2 powi d \<le> x then d else d - 1))"

definition rne :: "rat \<Rightarrow> int" where
  "rne y = (let f = \<lfloor>y\<rfloor>; d = y - of_int f in
     if d < 1 / 2 then f else if 1 / 2 < d then f + 1 else if even f then f else f + 1)"

definition fl :: "rat \<Rightarrow> rat" where
  "fl x = (if x = 0 then 0
           else (let u = 2 powi (ilog2 \<bar>x\<bar> - 52) in of_int (rne (x / u)) * u))"

definition fmul :: "rat \<Rightarrow> rat \<Rightarrow> rat" where "fmul x y = fl (x * y)"
definition fdiv :: "rat \<Rightarrow> rat \<Rightarrow> rat" where "fdiv x y = fl (x / y)"
definition fadd :: "rat \<Rightarrow> rat \<Rightarrow> rat" where "fadd x y = fl (x + y)"
definition fsub :: "rat \<Rightarrow> rat \<Rightarrow> rat" where "fsub x y = fl (x - y)"

text \<open>\<^verbatim>\<open>Math.round\<close>: the nearest integer, a tie going up. It is exact, not rounded.\<close>

definition Math_round :: "rat \<Rightarrow> int" where
  "Math_round x = \<lfloor>x + 1 / 2\<rfloor>"

section \<open>The transparency scorer\<close>

text \<open>
  \<^verbatim>\<open>deriveTransparencyScore(aiResult, productObj, answersObj)\<close> of the report creation
  handler. Its only call passes \<^verbatim>\<open>product.toObject()\<close>, a document of the Product schema.
  The function reads \<^verbatim>\<open>Math.random()\<close> from the environment: \<open>rnd\<close> is the value that call
  returns. The local constants of the function are definitions of their own.
\<close>

record product =
  product_id :: string
  name :: string
  category :: string

definition baseFromAI :: "runtime \<Rightarrow> jsval \<Rightarrow> jsnum" where
  "baseFromAI rt aiResult =
     Number rt (nullish (get_prop aiResult ''transparencyScore'') (get_prop aiResult ''score''))"

definition base :: "runtime \<Rightarrow> rat \<Rightarrow> jsval \<Rightarrow> int" where
  "base rt rnd aiResult =
     (case baseFromAI rt aiResult of
        Fin x \<Rightarrow> max 0 (min 100 (Math_round x))
      | _ \<Rightarrow> \<lfloor>fmul rnd 40\<rfloor> + 40)"

definition aiQuestionsCount :: "jsval \<Rightarrow> nat option" where
  "aiQuestionsCount aiResult =
     (case get_prop aiResult ''questions'' of
        JArr qs \<Rightarrow> Some (length qs)
      | _ \<Rightarrow> (case get_prop aiResult ''expectedQuestions'' of
                JArr qs \<Rightarrow> Some (length qs)
              | _ \<Rightarrow> None))"

definition providedAnswersCount :: "jsval \<Rightarrow> nat" where
  "providedAnswersCount answersObj = object_keys_count answersObj"

definition questionCount :: "jsval \<Rightarrow> jsval \<Rightarrow> nat" where
  "questionCount aiResult answersObj =
     (case aiQuestionsCount aiResult of
        Some n \<Rightarrow> n
      | None \<Rightarrow> max 1 (providedAnswersCount answersObj))"

definition completenessRatio :: "jsval \<Rightarrow> jsval \<Rightarrow> rat" where
  "completenessRatio aiResult answersObj =
     (let answeredCount = providedAnswersCount answersObj;
          questionCount = questionCount aiResult answersObj
      in if 0 < questionCount
         then min 1 (fdiv (of_nat answeredCount) (of_nat questionCount))
         else 0)"

definition categoryBoost :: "product \<Rightarrow> int" where
  "categoryBoost productObj =
     (let category = toLowerCase (category productObj) in
      if includes_str category ''skincare'' then 5
      else if includes_str category ''food'' then 4
      else if includes_str category ''personal'' \<or> includes_str category ''care'' then 3
      else if includes_str category ''cleaning'' then 3
      else if includes_str category ''clothing'' \<or> includes_str category ''apparel'' then 2
      else if includes_str category ''electronics'' then 1
      else 0)"

definition deriveTransparencyScore :: "runtime \<Rightarrow> rat \<Rightarrow> jsval \<Rightarrow> product \<Rightarrow> jsval \<Rightarrow> int" where
  "deriveTransparencyScore rt rnd aiResult productObj answersObj =
     (let base = base rt rnd aiResult;
          completenessRatio = completenessRatio aiResult answersObj;
          categoryBoost = categoryBoost productObj;
          completenessPercent = Math_round (fmul completenessRatio 100);
          computed = Math_round (fadd (fmul (of_int base) (fl (6 / 10)))
                                      (fmul (of_int completenessPercent) (fl (4 / 10))));
          computed = (if 1 / 2 \<le> completenessRatio
                      then computed + categoryBoost
                      else computed - max 0 \<lfloor>fmul (fsub 1 completenessRatio) 5\<rfloor>)
      in max 0 (min 100 computed))"

text \<open>
  A runtime for the concrete evaluations of this theory. Their inputs hold no string and no
  array in a numeric position, so none of its conversions is consulted.
\<close>

definition sample_runtime :: runtime where
  "sample_runtime =
     \<lparr>StringToNumber = (\<lambda>s. NaN), ArrayToString = (\<lambda>xs. []), NumberToString = (\<lambda>n. [])\<rparr>"

text \<open>
  Steps 6 and 7 of the specification's algorithm, in its words: the rounded weighted sum, plus
  the boost at a completeness ratio of one half or more, minus the floor of (1 - ratio) * 5
  below it. Step 8 clamps the result to 0..100.
\<close>

definition spec_computed :: "int \<Rightarrow> rat \<Rightarrow> int \<Rightarrow> int" where
  "spec_computed b ratio boost =
     (let computed = Math_round (fadd (fmul (of_int b) (fl (6 / 10)))
                                     (fmul (of_int (Math_round (fmul ratio 100))) (fl (4 / 10))))
      in if 1 / 2 \<le> ratio then computed + boost
         else computed - \<lfloor>fmul (fsub 1 ratio) 5\<rfloor>)"

definition spec_score :: "int \<Rightarrow> rat \<Rightarrow> int \<Rightarrow> int" where
  "spec_score b ratio boost = max 0 (min 100 (spec_computed b ratio boost))"

section \<open>Documents and the store\<close>

text \<open>
  An id in a document is an ObjectId, held as the 24 lower-case hexadecimal digits that
  \<^verbatim>\<open>ObjectId.toString()\<close> gives. The store keeps its documents in insertion order.
\<close>

type_synonym oid = string

datatype role = Admin | User

record user =
  user_id :: oid
  role :: role

datatype status = Draft | Pending | Completed

fun status_name :: "status \<Rightarrow> string" where
  "status_name Draft = ''draft''"
| "status_name Pending = ''pending''"
| "status_name Completed = ''completed''"

fun status_of_name :: "string \<Rightarrow> status option" where
  "status_of_name s =
     (if s = ''draft'' then Some Draft
      else if s = ''pending'' then Some Pending
      else if s = ''completed'' then Some Completed
      else None)"

record analysis =
  strengths :: "string list"
  improvements :: "string list"
  recommendations :: "string list"

text \<open>\<^verbatim>\<open>IReport\<close>: the interface declares \<^verbatim>\<open>userId?\<close>, and the handlers test for its presence.\<close>

record report =
  report_id :: oid
  productId :: oid
  userId :: "oid option"
  summary :: string
  transparencyScore :: int
  analysis :: analysis
  answers :: jsval
  status :: status
  createdAt :: nat

record db =
  products :: "product list"
  reports :: "report list"

text \<open>
  An id that arrives in a request is a string, which Mongoose casts to an ObjectId before it
  queries: 24 hexadecimal digits in either case are the ObjectId of their lower case, and a
  string that is no ObjectId makes \<^verbatim>\<open>findById\<close> throw a CastError. (A string of 12 characters,
  which some versions of the driver take for 12 bytes, is a CastError here; no such string
  passes \<^verbatim>\<open>isMongoId\<close>.)
\<close>

definition is_hex_digit :: "char \<Rightarrow> bool" where
  "is_hex_digit c =
     (let n = (of_char c :: nat) in
      (48 \<le> n \<and> n \<le> 57) \<or> (65 \<le> n \<and> n \<le> 70) \<or> (97 \<le> n \<and> n \<le> 102))"

definition castObjectId :: "string \<Rightarrow> oid option" where
  "castObjectId s =
     (if length s = 24 \<and> list_all is_hex_digit s then Some (toLowerCase s) else None)"

datatype 'a found = CastError | NotFound | Found 'a

definition Product_findById :: "db \<Rightarrow> string \<Rightarrow> product found" where
  "Product_findById d s =
     (case castObjectId s of
        None \<Rightarrow> CastError
      | Some i \<Rightarrow> (case find (\<lambda>p. product_id p = i) (products d) of
                    None \<Rightarrow> NotFound
                  | Some p \<Rightarrow> Found p))"

definition Report_findById :: "db \<Rightarrow> string \<Rightarrow> report found" where
  "Report_findById d s =
     (case castObjectId s of
        None \<Rightarrow> CastError
      | Some i \<Rightarrow> (case find (\<lambda>r. report_id r = i) (reports d) of
                    None \<Rightarrow> NotFound
                  | Some r \<Rightarrow> Found r))"

text \<open>
  \<^verbatim>\<open>populate('productId', ...)\<close> puts the product of the report in its place, or \<^verbatim>\<open>null\<close> when
  there is none.
\<close>

definition populate_product :: "db \<Rightarrow> report \<Rightarrow> product option" where
  "populate_product d r = find (\<lambda>p. product_id p = productId r) (products d)"

text \<open>\<^verbatim>\<open>doc.save()\<close> and \<^verbatim>\<open>doc.deleteOne()\<close> act on the one document with the id.\<close>

fun replaceOne :: "oid \<Rightarrow> report \<Rightarrow> report list \<Rightarrow> report list" where
  "replaceOne i r' [] = []"
| "replaceOne i r' (r # rs) = (if report_id r = i then r' # rs else r # replaceOne i r' rs)"

fun deleteOne :: "oid \<Rightarrow> report list \<Rightarrow> report list" where
  "deleteOne i [] = []"
| "deleteOne i (r # rs) = (if report_id r = i then rs else r # deleteOne i rs)"

text \<open>
  Every report of the store has an owner. The schema requires \<^verbatim>\<open>userId\<close>, so each store that
  the handlers build from one with this property has it too.
\<close>

definition owned :: "db \<Rightarrow> bool" where
  "owned d = list_all (\<lambda>r. userId r \<noteq> None) (reports d)"

subsection \<open>Schema validation of a report\<close>

text \<open>\<^verbatim>\<open>trim: true\<close> on ASCII white space.\<close>

definition is_space :: "char \<Rightarrow> bool" where
  "is_space c = (let n = (of_char c :: nat) in n = 32 \<or> (9 \<le> n \<and> n \<le> 13))"

definition trim :: "string \<Rightarrow> string" where
  "trim s = rev (dropWhile is_space (rev (dropWhile is_space s)))"

text \<open>
  Mongoose casts the values given to \<^verbatim>\<open>Report.create\<close> to the schema types. A string path
  takes strings, numbers and booleans; \<^verbatim>\<open>null\<close> and \<^verbatim>\<open>undefined\<close> leave it unset; an array or
  an object is a CastError. The outer \<open>option\<close> is the error, the inner one the unset path.
\<close>

fun cast_string :: "runtime \<Rightarrow> jsval \<Rightarrow> string option option" where
  "cast_string rt (JStr s) = Some (Some (trim s))"
| "cast_string rt (JNum n) = Some (Some (trim (NumberToString rt n)))"
| "cast_string rt (JBool b) = Some (Some (if b then ''true'' else ''false''))"
| "cast_string rt JUndefined = Some None"
| "cast_string rt JNull = Some None"
| "cast_string rt _ = None"

text \<open>
  An array of strings: every element is cast; an absent array is empty. The coercions of
  Mongoose for other shapes (a scalar wrapped into an array, \<^verbatim>\<open>null\<close> elements) are not
  modelled: such a value is an error here. No theorem below depends on them.
\<close>

fun cast_strings :: "runtime \<Rightarrow> jsval list \<Rightarrow> string list option" where
  "cast_strings rt [] = Some []"
| "cast_strings rt (v # vs) =
     (case cast_string rt v of
        Some (Some s) \<Rightarrow> (case cast_strings rt vs of Some ss \<Rightarrow> Some (s # ss) | None \<Rightarrow> None)
      | _ \<Rightarrow> None)"

fun cast_string_array :: "runtime \<Rightarrow> jsval \<Rightarrow> string list option" where
  "cast_string_array rt JUndefined = Some []"
| "cast_string_array rt (JArr vs) = cast_strings rt vs"
| "cast_string_array rt _ = None"

definition cast_analysis :: "runtime \<Rightarrow> jsval \<Rightarrow> analysis option" where
  "cast_analysis rt v =
     (if v = JUndefined then Some \<lparr>strengths = [], improvements = [], recommendations = []\<rparr>
      else case v of
        JObj kvs \<Rightarrow>
          (case (cast_string_array rt (get_prop v ''strengths''),
                 cast_string_array rt (get_prop v ''improvements''),
                 cast_string_array rt (get_prop v ''recommendations'')) of
             (Some s, Some i, Some r) \<Rightarrow> Some \<lparr>strengths = s, improvements = i, recommendations = r\<rparr>
           | _ \<Rightarrow> None)
      | _ \<Rightarrow> None)"

text \<open>
  A value assigned to an ObjectId path: a string is cast as above, \<^verbatim>\<open>null\<close> leaves the path
  unset, and every other value is a CastError here (Mongoose accepts a few more shapes; no
  theorem below depends on them).
\<close>

fun cast_oid :: "jsval \<Rightarrow> oid option option" where
  "cast_oid (JStr s) = (case castObjectId s of Some i \<Rightarrow> Some (Some i) | None \<Rightarrow> None)"
| "cast_oid JNull = Some None"
| "cast_oid JUndefined = Some None"
| "cast_oid _ = None"

text \<open>
  The validators of \<^verbatim>\<open>ReportSchema\<close> and its \<^verbatim>\<open>pre('save')\<close> hook: \<^verbatim>\<open>userId\<close> and \<^verbatim>\<open>summary\<close>
  required, the summary at most 2000 characters, the score within 0 and 100.
\<close>

definition ReportSchema_valid :: "report \<Rightarrow> bool" where
  "ReportSchema_valid r =
     (userId r \<noteq> None \<and> summary r \<noteq> [] \<and> length (summary r) \<le> 2000
      \<and> 0 \<le> transparencyScore r \<and> transparencyScore r \<le> 100
      \<and> \<not> (status r = Completed \<and> transparencyScore r < 0))"

text \<open>
  \<^verbatim>\<open>res.json\<close> serialises a document with its virtuals (\<^verbatim>\<open>toJSON: { virtuals: true }\<close> in both
  schemas). The virtual \<^verbatim>\<open>completionPercentage\<close> of a report reads
  \<^verbatim>\<open>Object.keys(this.answers)\<close>, which throws on \<^verbatim>\<open>null\<close>. The virtual \<^verbatim>\<open>ingredientCount\<close> of a
  populated product reads \<^verbatim>\<open>this.ingredients.length\<close>, which throws when the population did
  not select \<^verbatim>\<open>ingredients\<close>.
\<close>

definition toJSON_throws :: "report \<Rightarrow> bool" where
  "toJSON_throws r = (answers r = JNull)"

section \<open>Requests, responses and the identity check\<close>

record overview =
  totalReports :: nat
  averageScore :: rat
  maxScore :: int
  minScore :: int
  completedReports :: nat
  pendingReports :: nat
  draftReports :: nat

datatype bucket_id = Lower int | Other

datatype payload =
    ErrorBody string
  | ValidationFailed
  | MessageBody string
  | ReportBody report
  | ListBody "report list" nat nat int int
  | StatsBody overview "(bucket_id \<times> nat) list"

type_synonym response = "nat \<times> payload"

text \<open>
  What a handler did besides answering: the request to the AI service, the run of the scorer,
  a write to the store.
\<close>

datatype effect = AiRequest | ScorerRun | StoreWrite

record outcome =
  response :: response
  store :: db
  effects :: "effect list"

definition reply :: "db \<Rightarrow> nat \<Rightarrow> payload \<Rightarrow> outcome" where
  "reply d code body = \<lparr>response = (code, body), store = d, effects = []\<rparr>"

text \<open>
  \<^verbatim>\<open>protect\<close> (middleware/auth.ts): what the bearer credential resolves to. Only
  \<open>Authenticated\<close> reaches the handler, with \<^verbatim>\<open>req.user\<close> set.
\<close>

datatype credential = NoToken | TokenFailed | UserNotFound | Deactivated | Authenticated user

fun protect :: "credential \<Rightarrow> db \<Rightarrow> (user option \<Rightarrow> outcome) \<Rightarrow> outcome" where
  "protect NoToken d handler = reply d 401 (ErrorBody ''Not authorized, no token provided'')"
| "protect TokenFailed d handler = reply d 401 (ErrorBody ''Not authorized, token failed'')"
| "protect UserNotFound d handler = reply d 401 (ErrorBody ''Not authorized, user not found'')"
| "protect Deactivated d handler = reply d 401 (ErrorBody ''Not authorized, account is deactivated'')"
| "protect (Authenticated u) d handler = handler (Some u)"

text \<open>
  The ownership check that the handlers for one report repeat: \<^verbatim>\<open>req.user && report.userId &&
  report.userId.toString() !== req.user._id.toString() && req.user.role !== 'admin'\<close>.
\<close>

definition forbidden :: "user option \<Rightarrow> report \<Rightarrow> bool" where
  "forbidden req_user r =
     (case req_user of
        None \<Rightarrow> False
      | Some u \<Rightarrow> (case userId r of
                    None \<Rightarrow> False
                  | Some owner \<Rightarrow> owner \<noteq> user_id u \<and> role u \<noteq> Admin))"

section \<open>GET /api/reports/stats/overview\<close>

text \<open>
  The \<^verbatim>\<open>$group\<close> stage with \<^verbatim>\<open>_id: null\<close> yields one document, and none for an empty input.
  \<^verbatim>\<open>$avg\<close> divides in doubles.
\<close>

definition count_status :: "status \<Rightarrow> report list \<Rightarrow> nat" where
  "count_status st rs = length (filter (\<lambda>r. status r = st) rs)"

fun group_stage :: "report list \<Rightarrow> overview list" where
  "group_stage [] = []"
| "group_stage (r # rs) =
     [\<lparr>totalReports = length (r # rs),
       averageScore = fdiv (of_int (sum_list (map transparencyScore (r # rs)))) (of_nat (length (r # rs))),
       maxScore = fold (\<lambda>x m. max (transparencyScore x) m) rs (transparencyScore r),
       minScore = fold (\<lambda>x m. min (transparencyScore x) m) rs (transparencyScore r),
       completedReports = count_status Completed (r # rs),
       pendingReports = count_status Pending (r # rs),
       draftReports = count_status Draft (r # rs)\<rparr>]"

text \<open>
  The \<^verbatim>\<open>$bucket\<close> stage of MongoDB: each adjacent pair of boundaries is a bucket with an
  inclusive lower and an exclusive upper bound, named by its lower bound; a value in none of
  them goes to the \<^verbatim>\<open>default\<close> bucket; only buckets that received a document are returned.
\<close>

definition boundaries :: "int list" where
  "boundaries = [0, 20, 40, 60, 80, 100]"

fun bucket_of :: "int list \<Rightarrow> int \<Rightarrow> bucket_id" where
  "bucket_of (lo # hi # bs) v = (if lo \<le> v \<and> v < hi then Lower lo else bucket_of (hi # bs) v)"
| "bucket_of bs v = Other"

definition bucket_stage :: "int list \<Rightarrow> report list \<Rightarrow> (bucket_id \<times> nat) list" where
  "bucket_stage bs rs =
     filter (\<lambda>(i, n). 0 < n)
       (map (\<lambda>i. (i, length (filter (\<lambda>r. bucket_of bs (transparencyScore r) = i) rs)))
            (map Lower (butlast bs) @ [Other]))"

definition matchStage :: "user option \<Rightarrow> report list \<Rightarrow> report list" where
  "matchStage req_user rs =
     (case req_user of
        Some u \<Rightarrow> filter (\<lambda>r. userId r = Some (user_id u)) rs
      | None \<Rightarrow> rs)"

definition zero_overview :: overview where
  "zero_overview =
     \<lparr>totalReports = 0, averageScore = 0, maxScore = 0, minScore = 0,
      completedReports = 0, pendingReports = 0, draftReports = 0\<rparr>"

definition get_stats_overview :: "db \<Rightarrow> user option \<Rightarrow> outcome" where
  "get_stats_overview d req_user =
     (let stats = group_stage (matchStage req_user (reports d));
          scoreDistribution = bucket_stage boundaries (matchStage req_user (reports d))
      in reply d 200
           (StatsBody (case stats of s # _ \<Rightarrow> s | [] \<Rightarrow> zero_overview) scoreDistribution))"

definition route_stats_overview :: "credential \<Rightarrow> db \<Rightarrow> outcome" where
  "route_stats_overview cred d = protect cred d (get_stats_overview d)"

section \<open>GET /api/reports\<close>

text \<open>
  The query parameters arrive as strings; the numeric ones are held as the integers they
  denote (a string that denotes none fails \<^verbatim>\<open>isInt\<close> like one out of range), and a parameter
  that is present is truthy.
\<close>

record list_query =
  q_page :: "int option"
  q_limit :: "int option"
  q_status :: "string option"
  q_minScore :: "int option"
  q_maxScore :: "int option"

definition in_range :: "int \<Rightarrow> int \<Rightarrow> int option \<Rightarrow> bool" where
  "in_range lo hi v = (case v of None \<Rightarrow> True | Some n \<Rightarrow> lo \<le> n \<and> n \<le> hi)"

definition valid_list_query :: "list_query \<Rightarrow> bool" where
  "valid_list_query q =
     ((case q_page q of None \<Rightarrow> True | Some n \<Rightarrow> 1 \<le> n)
      \<and> in_range 1 100 (q_limit q)
      \<and> (case q_status q of None \<Rightarrow> True | Some s \<Rightarrow> s \<in> set [''draft'', ''pending'', ''completed''])
      \<and> in_range 0 100 (q_minScore q)
      \<and> in_range 0 100 (q_maxScore q))"

definition list_filter :: "user option \<Rightarrow> list_query \<Rightarrow> report \<Rightarrow> bool" where
  "list_filter req_user q r =
     ((case req_user of Some u \<Rightarrow> userId r = Some (user_id u) | None \<Rightarrow> True)
      \<and> (case q_status q of Some s \<Rightarrow> status_name (status r) = s | None \<Rightarrow> True)
      \<and> (case q_minScore q of Some m \<Rightarrow> m \<le> transparencyScore r | None \<Rightarrow> True)
      \<and> (case q_maxScore q of Some m \<Rightarrow> transparencyScore r \<le> m | None \<Rightarrow> True))"

text \<open>\<^verbatim>\<open>parseInt(v) || dflt\<close>\<close>

definition parseInt_or :: "int option \<Rightarrow> int \<Rightarrow> int" where
  "parseInt_or v dflt = (case v of Some n \<Rightarrow> (if n = 0 then dflt else n) | None \<Rightarrow> dflt)"

definition get_reports :: "db \<Rightarrow> list_query \<Rightarrow> user option \<Rightarrow> outcome" where
  "get_reports d q req_user =
     (if \<not> valid_list_query q then reply d 400 ValidationFailed
      else
        let page = parseInt_or (q_page q) 1;
            limit = parseInt_or (q_limit q) 10;
            skip = (page - 1) * limit;
            found = filter (list_filter req_user q) (reports d);
            listed = take (nat limit) (drop (nat skip) (sort_key (\<lambda>r. - int (createdAt r)) found));
            total = length found
        in reply d 200
             (ListBody listed (length listed) total page \<lceil>fdiv (of_nat total) (of_int limit)\<rceil>))"

definition route_list_reports :: "credential \<Rightarrow> db \<Rightarrow> list_query \<Rightarrow> outcome" where
  "route_list_reports cred d q = protect cred d (get_reports d q)"

text \<open>The reports that a response carries.\<close>

fun reports_of :: "payload \<Rightarrow> report list" where
  "reports_of (ListBody rs c t p tp) = rs"
| "reports_of (ReportBody r) = [r]"
| "reports_of _ = []"

section \<open>GET, PUT and DELETE /api/reports/:id\<close>

text \<open>
  The id of the route is a string. An error thrown inside the \<^verbatim>\<open>try\<close> block of a handler (a
  CastError of \<^verbatim>\<open>findById\<close>, a rejected \<^verbatim>\<open>save()\<close>, a virtual that throws in \<^verbatim>\<open>res.json\<close>) is
  caught and answered with 500.
\<close>

definition get_report :: "db \<Rightarrow> string \<Rightarrow> user option \<Rightarrow> outcome" where
  "get_report d i req_user =
     (case Report_findById d i of
        CastError \<Rightarrow> reply d 500 (ErrorBody ''Server error fetching report'')
      | NotFound \<Rightarrow> reply d 404 (ErrorBody ''Report not found'')
      | Found r \<Rightarrow>
          if forbidden req_user r then reply d 403 (ErrorBody ''Forbidden'')
          else if toJSON_throws r then reply d 500 (ErrorBody ''Server error fetching report'')
          else reply d 200 (ReportBody r))"

definition route_get_report :: "credential \<Rightarrow> db \<Rightarrow> string \<Rightarrow> outcome" where
  "route_get_report cred d i = protect cred d (get_report d i)"

text \<open>
  The body of an update. The route validates \<^verbatim>\<open>summary\<close>, \<^verbatim>\<open>transparencyScore\<close>, \<^verbatim>\<open>status\<close> and
  \<^verbatim>\<open>answers\<close>, held here in the type that the validators leave; \<^verbatim>\<open>productId\<close>, \<^verbatim>\<open>userId\<close> and
  \<^verbatim>\<open>analysis\<close> are not validated and may hold any value. (The report of this model has no
  \<^verbatim>\<open>pdfUrl\<close> and no \<^verbatim>\<open>updatedAt\<close>; a body cannot change them here.)
\<close>

record update_body =
  b_summary :: "string option"
  b_transparencyScore :: "int option"
  b_status :: "string option"
  b_answers :: "jsval option"
  b_put_productId :: "jsval option"
  b_put_userId :: "jsval option"
  b_analysis :: "jsval option"

fun isObject :: "jsval \<Rightarrow> bool" where
  "isObject (JObj kvs) = True"
| "isObject _ = False"

definition valid_update_body :: "update_body \<Rightarrow> bool" where
  "valid_update_body b =
     ((case b_summary b of None \<Rightarrow> True | Some s \<Rightarrow> length s \<le> 2000)
      \<and> in_range 0 100 (b_transparencyScore b)
      \<and> (case b_status b of None \<Rightarrow> True | Some s \<Rightarrow> s \<in> set [''draft'', ''pending'', ''completed''])
      \<and> (case b_answers b of None \<Rightarrow> True | Some a \<Rightarrow> isObject a))"

text \<open>
  \<^verbatim>\<open>Object.assign(report, req.body)\<close> copies every field of the body into the document, each
  cast to the type of its path; the setter of the summary trims it. \<open>None\<close> is a value that
  does not cast or a required id that is set to \<^verbatim>\<open>null\<close>: \<^verbatim>\<open>save()\<close> will reject the document.
\<close>

definition assign_body :: "runtime \<Rightarrow> report \<Rightarrow> update_body \<Rightarrow> report option" where
  "assign_body rt r b =
     (case (case b_put_productId b of None \<Rightarrow> Some (Some (productId r)) | Some v \<Rightarrow> cast_oid v,
            case b_put_userId b of None \<Rightarrow> Some (userId r) | Some v \<Rightarrow> cast_oid v,
            case b_analysis b of None \<Rightarrow> Some (analysis r) | Some v \<Rightarrow> cast_analysis rt v) of
        (Some (Some p), Some u, Some a) \<Rightarrow>
          Some (r\<lparr>productId := p,
                  userId := u,
                  summary := (case b_summary b of Some s \<Rightarrow> trim s | None \<Rightarrow> summary r),
                  transparencyScore :=
                    (case b_transparencyScore b of Some n \<Rightarrow> n | None \<Rightarrow> transparencyScore r),
                  analysis := a,
                  answers := (case b_answers b of Some v \<Rightarrow> v | None \<Rightarrow> answers r),
                  status := (case b_status b of
                               Some s \<Rightarrow> (case status_of_name s of Some st \<Rightarrow> st | None \<Rightarrow> status r)
                             | None \<Rightarrow> status r)\<rparr>)
      | _ \<Rightarrow> None)"

text \<open>
  The update of a report that its caller may change: \<^verbatim>\<open>Object.assign\<close>, \<^verbatim>\<open>save()\<close>, then
  \<^verbatim>\<open>populate('productId', 'name brand category')\<close> and \<^verbatim>\<open>res.json\<close>. The population leaves
  \<^verbatim>\<open>ingredients\<close> out, so \<^verbatim>\<open>res.json\<close> throws whenever the product of the report exists: the
  report is written and the request answered 500.
\<close>

definition update_report :: "runtime \<Rightarrow> db \<Rightarrow> report \<Rightarrow> update_body \<Rightarrow> outcome" where
  "update_report rt d r b =
     (case assign_body rt r b of
        None \<Rightarrow> reply d 500 (ErrorBody ''Server error updating report'')
      | Some r' \<Rightarrow>
          if \<not> ReportSchema_valid r' then reply d 500 (ErrorBody ''Server error updating report'')
          else
            let d' = d\<lparr>reports := replaceOne (report_id r) r' (reports d)\<rparr> in
            (case populate_product d' r' of
               Some p \<Rightarrow>
                 \<lparr>response = (500, ErrorBody ''Server error updating report''),
                  store = d', effects = [StoreWrite]\<rparr>
             | None \<Rightarrow>
                 if toJSON_throws r'
                 then \<lparr>response = (500, ErrorBody ''Server error updating report''),
                       store = d', effects = [StoreWrite]\<rparr>
                 else \<lparr>response = (200, ReportBody r'), store = d', effects = [StoreWrite]\<rparr>))"

definition put_report :: "runtime \<Rightarrow> db \<Rightarrow> string \<Rightarrow> update_body \<Rightarrow> user option \<Rightarrow> outcome" where
  "put_report rt d i b req_user =
     (if \<not> valid_update_body b then reply d 400 ValidationFailed
      else case Report_findById d i of
        CastError \<Rightarrow> reply d 500 (ErrorBody ''Server error updating report'')
      | NotFound \<Rightarrow> reply d 404 (ErrorBody ''Report not found'')
      | Found r \<Rightarrow>
          if forbidden req_user r then reply d 403 (ErrorBody ''Forbidden'')
          else update_report rt d r b)"

definition route_put_report ::
  "runtime \<Rightarrow> credential \<Rightarrow> db \<Rightarrow> string \<Rightarrow> update_body \<Rightarrow> outcome" where
  "route_put_report rt cred d i b = protect cred d (put_report rt d i b)"

definition delete_report :: "db \<Rightarrow> string \<Rightarrow> user option \<Rightarrow> outcome" where
  "delete_report d i req_user =
     (case Report_findById d i of
        CastError \<Rightarrow> reply d 500 (ErrorBody ''Server error deleting report'')
      | NotFound \<Rightarrow> reply d 404 (ErrorBody ''Report not found'')
      | Found r \<Rightarrow>
          if forbidden req_user r then reply d 403 (ErrorBody ''Forbidden'')
          else \<lparr>response = (200, MessageBody ''Report deleted successfully''),
                store = d\<lparr>reports := deleteOne (report_id r) (reports d)\<rparr>,
                effects = [StoreWrite]\<rparr>)"

definition route_delete_report :: "credential \<Rightarrow> db \<Rightarrow> string \<Rightarrow> outcome" where
  "route_delete_report cred d i = protect cred d (delete_report d i)"

section \<open>POST /api/reports\<close>

record create_body =
  b_productId :: string
  b_answersObj :: jsval

text \<open>
  \<^verbatim>\<open>isMongoId\<close> of validator.js is \<^verbatim>\<open>isHexadecimal(str) && str.length === 24\<close>, and
  \<^verbatim>\<open>isHexadecimal\<close> is the pattern \<^verbatim>\<open>/^(0x|0h)?[0-9A-F]+$/i\<close>: a prefix \<^verbatim>\<open>0x\<close> or \<^verbatim>\<open>0h\<close> may stand
  before the digits. Such a string of 24 characters passes the validation and is no ObjectId.
\<close>

definition isHexadecimal :: "string \<Rightarrow> bool" where
  "isHexadecimal s =
     (let prefix = toLowerCase (take 2 s);
          digits = (if prefix = ''0x'' \<or> prefix = ''0h'' then drop 2 s else s)
      in digits \<noteq> [] \<and> list_all is_hex_digit digits)"

definition isMongoId :: "string \<Rightarrow> bool" where
  "isMongoId s = (isHexadecimal s \<and> length s = 24)"

definition valid_create_body :: "create_body \<Rightarrow> bool" where
  "valid_create_body b = (isMongoId (b_productId b) \<and> isObject (b_answersObj b))"

text \<open>
  What the handler takes from outside during one request: the answer of the AI service
  (\<open>None\<close> when \<^verbatim>\<open>axios.post\<close> rejects: no connection, a timeout, a status outside 2xx), the
  values of the first and the second call of \<^verbatim>\<open>Math.random()\<close>, the id and the time stamp
  that the store gives a new document.
\<close>

record environment =
  ai_response :: "jsval option"
  random1 :: rat
  random2 :: rat
  new_id :: oid
  now :: nat

text \<open>The object that the \<^verbatim>\<open>catch\<close> block builds when the AI call fails.\<close>

definition fallback_analysis :: "rat \<Rightarrow> product \<Rightarrow> jsval" where
  "fallback_analysis rnd p =
     JObj [(''summary'', JStr (''Analysis for '' @ name p
                @ '': This product shows basic transparency with room for improvement.'')),
           (''transparencyScore'', JNum (Fin (of_int (\<lfloor>fmul rnd 40\<rfloor> + 40)))),
           (''analysis'', JObj
              [(''strengths'', JArr [JStr ''Product information provided'',
                                     JStr ''Basic ingredient list available'']),
               (''improvements'', JArr [JStr ''Add sustainability data'',
                                        JStr ''Include certification details'']),
               (''recommendations'', JArr [JStr ''Provide sourcing details'',
                                           JStr ''Add eco-impact information''])])]"

text \<open>
  \<^verbatim>\<open>Report.create\<close>: the document is cast (the product id of the request with it) and
  validated, then stored. \<open>None\<close> is the error it throws.
\<close>

definition Report_create ::
  "runtime \<Rightarrow> environment \<Rightarrow> string \<Rightarrow> oid option \<Rightarrow> jsval \<Rightarrow> int \<Rightarrow> jsval \<Rightarrow> jsval \<Rightarrow> status
     \<Rightarrow> report option" where
  "Report_create rt env pid uid summary_v score analysis_v answers_v st =
     (case (castObjectId pid, cast_string rt summary_v, cast_analysis rt analysis_v) of
        (Some p, Some s, Some a) \<Rightarrow>
          (let r = \<lparr>report_id = new_id env, productId = p, userId = uid,
                    summary = (case s of Some t \<Rightarrow> t | None \<Rightarrow> []),
                    transparencyScore = score, analysis = a, answers = answers_v,
                    status = st, createdAt = now env\<rparr>
           in if ReportSchema_valid r then Some r else None)
      | _ \<Rightarrow> None)"

text \<open>
  The handler. Reading \<^verbatim>\<open>aiAnalysis.summary\<close> of \<^verbatim>\<open>null\<close> or \<^verbatim>\<open>undefined\<close> throws a TypeError,
  which the outer \<^verbatim>\<open>catch\<close> answers with 500, as it does an error of \<^verbatim>\<open>Report.create\<close>; the
  scorer has run by then. When the AI call fails, the fallback object takes the first draw
  of \<^verbatim>\<open>Math.random()\<close> and the scorer would take the second. The answer populates the
  product with its \<^verbatim>\<open>ingredients\<close>, and the answers of a new report are an object, so no virtual
  throws in \<^verbatim>\<open>res.json\<close>.
\<close>

definition post_report :: "runtime \<Rightarrow> environment \<Rightarrow> db \<Rightarrow> create_body \<Rightarrow> user option \<Rightarrow> outcome" where
  "post_report rt env d b req_user =
     (if \<not> valid_create_body b then reply d 400 ValidationFailed
      else case Product_findById d (b_productId b) of
        CastError \<Rightarrow> reply d 500 (ErrorBody ''Server error creating report'')
      | NotFound \<Rightarrow> reply d 404 (ErrorBody ''Product not found'')
      | Found p \<Rightarrow>
          let (aiAnalysis, rnd) =
                (case ai_response env of
                   Some data \<Rightarrow> (data, random1 env)
                 | None \<Rightarrow> (fallback_analysis (random1 env) p, random2 env));
              computedScore = deriveTransparencyScore rt rnd aiAnalysis p (b_answersObj b);
              failed = \<lparr>response = (500, ErrorBody ''Server error creating report''),
                        store = d, effects = [AiRequest, ScorerRun]\<rparr>
          in if aiAnalysis = JUndefined \<or> aiAnalysis = JNull then failed
             else case Report_create rt env (b_productId b) (map_option user_id req_user)
                         (get_prop aiAnalysis ''summary'') computedScore
                         (get_prop aiAnalysis ''analysis'') (b_answersObj b) Completed of
                    None \<Rightarrow> failed
                  | Some r \<Rightarrow>
                      \<lparr>response = (201, ReportBody r),
                       store = d\<lparr>reports := reports d @ [r]\<rparr>,
                       effects = [AiRequest, ScorerRun, StoreWrite]\<rparr>)"

definition route_create_report ::
  "runtime \<Rightarrow> environment \<Rightarrow> credential \<Rightarrow> db \<Rightarrow> create_body \<Rightarrow> outcome" where
  "route_create_report rt env cred d b = protect cred d (post_report rt env d b)"

section \<open>Sample data\<close>

text \<open>A store with one product and two reports of two users, for the concrete instances.\<close>

definition alice :: user where
  "alice = \<lparr>user_id = ''54b7f0c2a1d3e4f5a6b7c8aa'', role = User\<rparr>"


definition carol :: user where
  "carol = \<lparr>user_id = ''54b7f0c2a1d3e4f5a6b7c8ac'', role = Admin\<rparr>"

definition cream :: product where
  "cream = \<lparr>product_id = ''64b7f0c2a1d3e4f5a6b7c8d9'', name = ''Cream'', category = ''Skincare''\<rparr>"

definition alice_report :: report where
  "alice_report =
     \<lparr>report_id = ''74b7f0c2a1d3e4f5a6b7c8d1'', productId = ''64b7f0c2a1d3e4f5a6b7c8d9'',
      userId = Some ''54b7f0c2a1d3e4f5a6b7c8aa'', summary = ''Full disclosure'',
      transparencyScore = 90,
      analysis = \<lparr>strengths = [], improvements = [], recommendations = []\<rparr>,
      answers = JObj [], status = Completed, createdAt = 1\<rparr>"

definition bob_report :: report where
  "bob_report =
     \<lparr>report_id = ''74b7f0c2a1d3e4f5a6b7c8d2'', productId = ''64b7f0c2a1d3e4f5a6b7c8d9'',
      userId = Some ''54b7f0c2a1d3e4f5a6b7c8ab'', summary = ''Partial disclosure'',
      transparencyScore = 55,
      analysis = \<lparr>strengths = [], improvements = [], recommendations = []\<rparr>,
      answers = JObj [], status = Pending, createdAt = 2\<rparr>"

definition sample_db :: db where
  "sample_db = \<lparr>products = [cream], reports = [alice_report, bob_report]\<rparr>"

definition no_filters :: list_query where
  "no_filters = \<lparr>q_page = None, q_limit = None, q_status = None, q_minScore = None, q_maxScore = None\<rparr>"


definition ai_down :: environment where
  "ai_down = \<lparr>ai_response = None, random1 = 1 / 4, random2 = 3 / 4,
               new_id = ''74b7f0c2a1d3e4f5a6b7c8d3'', now = 3\<rparr>"

definition cream_answers :: create_body where
  "cream_answers = \<lparr>b_productId = ''64b7f0c2a1d3e4f5a6b7c8d9'', b_answersObj = JObj [(''q1'', JStr ''yes'')]\<rparr>"

definition unknown_answers :: create_body where
  "unknown_answers = \<lparr>b_productId = ''64b7f0c2a1d3e4f5a6b7c8d0'', b_answersObj = JObj [(''q1'', JStr ''yes'')]\<rparr>"

text \<open>A product id of 24 characters with the prefix \<open>0x\<close>.\<close>

definition prefixed_answers :: create_body where
  "prefixed_answers = \<lparr>b_productId = ''0x64b7f0c2a1d3e4f5a6b7c8'', b_answersObj = JObj [(''q1'', JStr ''yes'')]\<rparr>"




section \<open>Properties of the rounding\<close>

text \<open>
  Rounding to the nearest double keeps the sign and the order, and \<open>ilog2\<close> is the binary
  exponent.
\<close>

lemma rne_nonneg: "0 \<le> y \<Longrightarrow> 0 \<le> rne y"
  by (auto simp: rne_def Let_def)

lemma fl_nonneg: "0 \<le> x \<Longrightarrow> 0 \<le> fl x"
  by (auto simp: fl_def Let_def intro!: mult_nonneg_nonneg rne_nonneg divide_nonneg_nonneg)

lemma rne_of_int: "rne (of_int n) = n"
  by (simp add: rne_def Let_def)

lemma rne_bounds: "\<lfloor>y\<rfloor> \<le> rne y" "rne y \<le> \<lfloor>y\<rfloor> + 1"
  by (auto simp: rne_def Let_def)

lemma rne_mono: assumes "x \<le> y" shows "rne x \<le> rne y"
proof (cases "\<lfloor>x\<rfloor> = \<lfloor>y\<rfloor>")
  case True
  with assms show ?thesis by (auto simp: rne_def Let_def)
next
  case False
  with assms have "\<lfloor>x\<rfloor> + 1 \<le> \<lfloor>y\<rfloor>" using floor_mono[OF assms] by linarith
  with rne_bounds(2)[of x] rne_bounds(1)[of y] show ?thesis by linarith
qed

lemma ilog2_bounds:
  assumes "0 < x"
  shows "2 powi (ilog2 x) \<le> x" and "x < 2 powi (ilog2 x + 1)"
proof -
  obtain p q where pq: "quotient_of x = (p, q)" by (cases "quotient_of x")
  have q0: "0 < q" using quotient_of_denom_pos[OF pq] .
  have x: "x = of_int p / of_int q" using quotient_of_div[OF pq] .
  have p0: "0 < p" using assms q0 x by (simp add: zero_less_divide_iff)
  define d where "d = bitlen p - bitlen q"
  have bp: "1 \<le> bitlen p" "1 \<le> bitlen q" using p0 q0 by (auto simp: bitlen_alt_def)
  have P: "(2::rat) powi (bitlen p - 1) \<le> of_int p" "of_int p < (2::rat) powi (bitlen p)"
  proof -
    have "(2::int) ^ nat (bitlen p - 1) \<le> p" "p < 2 ^ nat (bitlen p)"
      using bitlen_bounds[OF p0] by auto
    then have "of_int ((2::int) ^ nat (bitlen p - 1)) \<le> (of_int p :: rat)"
      "(of_int p :: rat) < of_int (2 ^ nat (bitlen p))"
      by (simp_all only: of_int_le_iff of_int_less_iff)
    then show "(2::rat) powi (bitlen p - 1) \<le> of_int p" "of_int p < (2::rat) powi (bitlen p)"
      using bp by (simp_all add: power_int_def)
  qed
  have Q: "(2::rat) powi (bitlen q - 1) \<le> of_int q" "of_int q < (2::rat) powi (bitlen q)"
  proof -
    have "(2::int) ^ nat (bitlen q - 1) \<le> q" "q < 2 ^ nat (bitlen q)"
      using bitlen_bounds[OF q0] by auto
    then have "of_int ((2::int) ^ nat (bitlen q - 1)) \<le> (of_int q :: rat)"
      "(of_int q :: rat) < of_int (2 ^ nat (bitlen q))"
      by (simp_all only: of_int_le_iff of_int_less_iff)
    then show "(2::rat) powi (bitlen q - 1) \<le> of_int q" "of_int q < (2::rat) powi (bitlen q)"
      using bp by (simp_all add: power_int_def)
  qed
  have lo: "2 powi (d - 1) < x"
  proof -
    have "(2::rat) powi (d - 1) = 2 powi (bitlen p - 1) / 2 powi (bitlen q)"
      by (simp add: d_def flip: power_int_diff) (simp add: algebra_simps)
    also have "\<dots> < of_int p / of_int q"
      using P(1) Q(2) q0 by (intro frac_less2) auto
    finally show ?thesis by (simp add: x)
  qed
  have hi: "x < 2 powi (d + 1)"
  proof -
    have "of_int p / of_int q < (2::rat) powi (bitlen p) / 2 powi (bitlen q - 1)"
      using P(2) Q(1) p0 by (intro frac_less) auto
    also have "\<dots> = 2 powi (d + 1)"
      by (simp add: d_def flip: power_int_diff) (simp add: algebra_simps)
    finally show ?thesis by (simp add: x)
  qed
  have e: "ilog2 x = (if 2 powi d \<le> x then d else d - 1)"
    by (simp add: ilog2_def pq d_def Let_def)
  show "2 powi (ilog2 x) \<le> x" using lo by (auto simp: e intro: less_imp_le)
  show "x < 2 powi (ilog2 x + 1)" using hi by (auto simp: e)
qed




lemma fl_pos_unfold:
  assumes "0 < x"
  shows "fl x = of_int (rne (x / 2 powi (ilog2 x - 52))) * 2 powi (ilog2 x - 52)"
  using assms by (simp add: fl_def Let_def)

lemma fl_upper:
  assumes "0 < x"
  shows "fl x \<le> 2 powi (ilog2 x + 1)"
proof -
  define u :: rat where "u = 2 powi (ilog2 x - 52)"
  have u0: "0 < u" by (simp add: u_def)
  have split: "(2::rat) powi (ilog2 x + 1) = of_int (2 ^ 53) * u"
    unfolding u_def
    using power_int_add[of "2::rat" 53 "ilog2 x - 52"] by (simp add: algebra_simps)
  have "x / u \<le> of_int (2 ^ 53)"
    using ilog2_bounds(2)[OF assms] u0 unfolding split by (simp add: field_simps)
  then have "rne (x / u) \<le> 2 ^ 53"
    using rne_mono[of "x / u" "of_int (2 ^ 53)"] by (simp only: rne_of_int)
  then have "(of_int (rne (x / u)) :: rat) \<le> of_int (2 ^ 53)"
    by (simp only: of_int_le_iff)
  then have "of_int (rne (x / u)) * u \<le> of_int (2 ^ 53) * u"
    using u0 by (intro mult_right_mono) auto
  then show ?thesis
    unfolding split fl_pos_unfold[OF assms] u_def .
qed

lemma fl_lower:
  assumes "0 < x"
  shows "2 powi (ilog2 x) \<le> fl x"
proof -
  define u :: rat where "u = 2 powi (ilog2 x - 52)"
  have u0: "0 < u" by (simp add: u_def)
  have split: "(2::rat) powi (ilog2 x) = of_int (2 ^ 52) * u"
    unfolding u_def
    using power_int_add[of "2::rat" 52 "ilog2 x - 52"] by (simp add: algebra_simps)
  have "of_int (2 ^ 52) \<le> x / u"
    using ilog2_bounds(1)[OF assms] u0 unfolding split by (simp add: field_simps)
  then have "2 ^ 52 \<le> rne (x / u)"
    using rne_mono[of "of_int (2 ^ 52)" "x / u"] by (simp only: rne_of_int)
  then have "(of_int (2 ^ 52) :: rat) \<le> of_int (rne (x / u))"
    by (simp only: of_int_le_iff)
  then have "of_int (2 ^ 52) * u \<le> of_int (rne (x / u)) * u"
    using u0 by (intro mult_right_mono) auto
  then show ?thesis
    unfolding split fl_pos_unfold[OF assms] u_def .
qed


lemma fl_mono:
  assumes "0 \<le> x" and "x \<le> y"
  shows "fl x \<le> fl y"
proof (cases "x = 0")
  case True
  then show ?thesis using fl_nonneg[of y] assms by (simp add: fl_def)
next
  case False
  with assms have x0: "0 < x" and y0: "0 < y" by auto
  have "(2::rat) powi (ilog2 x) < 2 powi (ilog2 y + 1)"
    using ilog2_bounds(1)[OF x0] ilog2_bounds(2)[OF y0] assms(2) by linarith
  then have le: "ilog2 x \<le> ilog2 y"
    using power_int_increasing[of "ilog2 y + 1" "ilog2 x" "2::rat"] by (cases "ilog2 x \<le> ilog2 y") auto
  show ?thesis
  proof (cases "ilog2 x = ilog2 y")
    case True
    define u :: rat where "u = 2 powi (ilog2 y - 52)"
    have u0: "0 < u" by (simp add: u_def)
    have "x / u \<le> y / u" using assms(2) u0 by (simp add: divide_right_mono)
    then have "(of_int (rne (x / u)) :: rat) \<le> of_int (rne (y / u))"
      using rne_mono by (simp only: of_int_le_iff)
    then have "of_int (rne (x / u)) * u \<le> of_int (rne (y / u)) * u"
      using u0 by (intro mult_right_mono) auto
    then show ?thesis
      unfolding fl_pos_unfold[OF x0] fl_pos_unfold[OF y0] True u_def .
  next
    case False
    with le have "ilog2 x + 1 \<le> ilog2 y" by simp
    then have "(2::rat) powi (ilog2 x + 1) \<le> 2 powi (ilog2 y)"
      by (intro power_int_increasing) auto
    with fl_upper[OF x0] fl_lower[OF y0] show ?thesis by linarith
  qed
qed

section \<open>Properties of the scorer\<close>

text \<open>
  \<^verbatim>\<open>Math.random()\<close> returns a double in [0, 1), so at most \<open>1 - 1 / 2 ^ 53\<close>: then
  \<^verbatim>\<open>Math.floor(Math.random() * 40)\<close> lies between 0 and 39.
\<close>

lemma random_times_40:
  assumes "0 \<le> rnd" and "rnd \<le> 1 - 1 / 2 ^ 53"
  shows "0 \<le> \<lfloor>fmul rnd 40\<rfloor>" and "\<lfloor>fmul rnd 40\<rfloor> \<le> 39"
proof -
  have "0 \<le> fmul rnd 40" using assms(1) by (simp add: fmul_def fl_nonneg)
  then show "0 \<le> \<lfloor>fmul rnd 40\<rfloor>" by simp
  have top: "fl ((1 - 1 / 2 ^ 53) * 40) = 5629499534213119 / 140737488355328"
    by code_simp
  have "fmul rnd 40 \<le> fl ((1 - 1 / 2 ^ 53) * 40)"
    unfolding fmul_def using assms by (intro fl_mono) auto
  then have "fmul rnd 40 < 40" unfolding top by simp
  then have "\<lfloor>fmul rnd 40\<rfloor> < 40" by (simp add: floor_less_iff)
  then show "\<lfloor>fmul rnd 40\<rfloor> \<le> 39" by simp
qed

lemma completenessRatio_bounds:
  "0 \<le> completenessRatio aiResult answersObj" "completenessRatio aiResult answersObj \<le> 1"
  by (auto simp: completenessRatio_def Let_def fdiv_def intro!: fl_nonneg)

lemma penalty_nonneg: "0 \<le> \<lfloor>fmul (fsub 1 (completenessRatio aiResult answersObj)) 5\<rfloor>"
proof -
  have "0 \<le> fsub 1 (completenessRatio aiResult answersObj)"
    using completenessRatio_bounds(2)[of aiResult answersObj] by (simp add: fsub_def fl_nonneg)
  then have "0 \<le> fmul (fsub 1 (completenessRatio aiResult answersObj)) 5"
    by (simp add: fmul_def fl_nonneg)
  then show ?thesis by simp
qed

lemma deriveTransparencyScore_spec:
  "deriveTransparencyScore rt rnd aiResult productObj answersObj =
     spec_score (base rt rnd aiResult) (completenessRatio aiResult answersObj)
       (categoryBoost productObj)"
  using penalty_nonneg[of aiResult answersObj]
  by (simp add: deriveTransparencyScore_def spec_score_def spec_computed_def Let_def)



lemma Math_round_nearest:
  "of_int (Math_round s) - 1 / 2 \<le> s \<and> s < of_int (Math_round s) + 1 / 2"
  unfolding Math_round_def by linarith

lemma baseFromAI_score:
  assumes "get_prop aiResult ''transparencyScore'' = JNum (Fin s)
     \<or> ((get_prop aiResult ''transparencyScore'' = JUndefined
          \<or> get_prop aiResult ''transparencyScore'' = JNull)
         \<and> get_prop aiResult ''score'' = JNum (Fin s))"
  shows "baseFromAI rt aiResult = Fin s"
  using assms by (auto simp: baseFromAI_def)

text \<open>
  C10. When the AI result carries a finite number \<open>s\<close> as its \<^verbatim>\<open>transparencyScore\<close> (or as its
  \<^verbatim>\<open>score\<close>, the former being absent or null), the base of the scorer is \<open>s\<close> rounded to the
  nearest integer (a tie going up) and then clamped to 0..100; an AI score of 65.5 gives the
  base 66.
\<close>

theorem base_rounds_ai_score:
  assumes "get_prop aiResult ''transparencyScore'' = JNum (Fin s)
     \<or> ((get_prop aiResult ''transparencyScore'' = JUndefined
          \<or> get_prop aiResult ''transparencyScore'' = JNull)
         \<and> get_prop aiResult ''score'' = JNum (Fin s))"
  shows "base rt rnd aiResult = max 0 (min 100 (Math_round s))
     \<and> of_int (Math_round s) - 1 / 2 \<le> s \<and> s < of_int (Math_round s) + 1 / 2
     \<and> base rt rnd (JObj [(''transparencyScore'', JNum (Fin (131 / 2)))]) = 66"
proof -
  have "base rt rnd (JObj [(''transparencyScore'', JNum (Fin (131 / 2)))]) = 66"
    by code_simp
  then show ?thesis
    using baseFromAI_score[OF assms, of rt] Math_round_nearest[of s]
    by (simp add: base_def)
qed

text \<open>The premise of C10 holds of an AI result with the score 65.5, whose base is 66.\<close>

theorem base_rounds_ai_score_witness:
  "get_prop (JObj [(''score'', JNum (Fin (131 / 2)))]) ''transparencyScore'' = JUndefined
   \<and> get_prop (JObj [(''score'', JNum (Fin (131 / 2)))]) ''score'' = JNum (Fin (131 / 2))
   \<and> base sample_runtime 0 (JObj [(''score'', JNum (Fin (131 / 2)))]) = 66"
proof -
  have h: "get_prop (JObj [(''score'', JNum (Fin (131 / 2)))]) ''transparencyScore'' = JUndefined"
     "get_prop (JObj [(''score'', JNum (Fin (131 / 2)))]) ''score'' = JNum (Fin (131 / 2))"
    by simp_all
  have r: "max 0 (min 100 (Math_round (131 / 2))) = 66" by (simp add: Math_round_def)
  from h have "get_prop (JObj [(''score'', JNum (Fin (131 / 2)))]) ''transparencyScore'' = JNum (Fin (131 / 2))
     \<or> ((get_prop (JObj [(''score'', JNum (Fin (131 / 2)))]) ''transparencyScore'' = JUndefined
          \<or> get_prop (JObj [(''score'', JNum (Fin (131 / 2)))]) ''transparencyScore'' = JNull)
         \<and> get_prop (JObj [(''score'', JNum (Fin (131 / 2)))]) ''score'' = JNum (Fin (131 / 2)))"
    by simp
  from base_rounds_ai_score[OF this, of sample_runtime 0] h r show ?thesis by simp
qed






section \<open>Properties of report creation\<close>

lemma trim_id:
  assumes "s \<noteq> []" and "\<not> is_space (hd s)" and "\<not> is_space (last s)"
  shows "trim s = s"
proof -
  have 1: "dropWhile is_space s = s" using assms(1,2) by (cases s) simp_all
  obtain ys y where s: "s = ys @ [y]" using assms(1) by (cases s rule: rev_cases) auto
  have 2: "dropWhile is_space (rev s) = rev s" using assms(3) by (simp add: s)
  show ?thesis by (simp add: trim_def 1 2)
qed

lemma Math_round_of_int: "Math_round (of_int n) = n"
  unfolding Math_round_def by linarith

lemma deriveTransparencyScore_bounds:
  "0 \<le> deriveTransparencyScore rt rnd aiResult productObj answersObj"
  "deriveTransparencyScore rt rnd aiResult productObj answersObj \<le> 100"
  by (simp_all add: deriveTransparencyScore_def Let_def)

lemma Product_findById_Found:
  "Product_findById d s = Found p \<Longrightarrow> castObjectId s = Some (product_id p)"
  by (auto simp: Product_findById_def find_Some_iff split: option.splits)

lemma fallback_props:
  "get_prop (fallback_analysis rnd p) ''summary'' =
     JStr (''Analysis for '' @ name p
           @ '': This product shows basic transparency with room for improvement.'')"
  "get_prop (fallback_analysis rnd p) ''transparencyScore'' =
     JNum (Fin (of_int (\<lfloor>fmul rnd 40\<rfloor> + 40)))"
  "get_prop (fallback_analysis rnd p) ''analysis'' =
     JObj [(''strengths'', JArr [JStr ''Product information provided'',
                                 JStr ''Basic ingredient list available'']),
           (''improvements'', JArr [JStr ''Add sustainability data'',
                                    JStr ''Include certification details'']),
           (''recommendations'', JArr [JStr ''Provide sourcing details'',
                                       JStr ''Add eco-impact information''])]"
  by (simp_all add: fallback_analysis_def)

lemma fallback_base:
  "base rt rnd' (fallback_analysis rnd p) = max 0 (min 100 (\<lfloor>fmul rnd 40\<rfloor> + 40))"
  by (simp only: base_def baseFromAI_def fallback_props(2) nullish.simps Number.simps
      jsnum.case Math_round_of_int)

lemma fallback_summary_cast:
  "cast_string rt (get_prop (fallback_analysis rnd p) ''summary'') =
     Some (Some (''Analysis for '' @ name p
           @ '': This product shows basic transparency with room for improvement.''))"
proof -
  have "trim (''Analysis for '' @ name p
           @ '': This product shows basic transparency with room for improvement.'')
        = ''Analysis for '' @ name p
           @ '': This product shows basic transparency with room for improvement.''"
    by (rule trim_id) (simp_all add: is_space_def)
  then show ?thesis by (simp add: fallback_props(1))
qed

lemma fallback_analysis_cast:
  "cast_analysis rt (get_prop (fallback_analysis rnd p) ''analysis'') =
     Some \<lparr>strengths = [''Product information provided'', ''Basic ingredient list available''],
           improvements = [''Add sustainability data'', ''Include certification details''],
           recommendations = [''Provide sourcing details'', ''Add eco-impact information'']\<rparr>"
proof -
  have t: "trim ''Product information provided'' = ''Product information provided''"
    "trim ''Basic ingredient list available'' = ''Basic ingredient list available''"
    "trim ''Add sustainability data'' = ''Add sustainability data''"
    "trim ''Include certification details'' = ''Include certification details''"
    "trim ''Provide sourcing details'' = ''Provide sourcing details''"
    "trim ''Add eco-impact information'' = ''Add eco-impact information''"
    by (rule trim_id; simp add: is_space_def)+
  show ?thesis
    unfolding fallback_props(3) by (simp add: cast_analysis_def t)
qed

text \<open>
  C4, as stated, fails in one part. The object built when the AI call fails does not omit
  \<^verbatim>\<open>transparencyScore\<close>: it sets it to \<^verbatim>\<open>Math.floor(Math.random() * 40) + 40\<close>. With the draw
  0.25 for the product \<open>cream\<close> the property holds 50, the scorer finds it finite and takes
  it as its base, whatever its own draw (here 0.75) would have given.
\<close>

theorem fallback_score_counterexample:
  "get_prop (fallback_analysis (1 / 4) cream) ''transparencyScore'' = JNum (Fin 50)
   \<and> Number_isFinite (baseFromAI sample_runtime (fallback_analysis (1 / 4) cream))
   \<and> base sample_runtime (3 / 4) (fallback_analysis (1 / 4) cream) = 50"
  by code_simp

text \<open>
  C4, amended. When the AI call fails during the creation of a report for an existing product
  (whose name keeps to the 200 characters of the Product schema), the request is answered
  201 with a completed report, never with an error. The summary of the report is the template
  around the product name, its three analysis lists hold the fixed entries of the fallback,
  and the fallback carries a \<^verbatim>\<open>transparencyScore\<close> of \<^verbatim>\<open>Math.floor(Math.random() * 40) + 40\<close>,
  between 40 and 79, which the scorer takes as its base in place of a baseline of its own; the
  score of the report lies between 0 and 100.
\<close>

theorem ai_failure_fallback:
  assumes "valid_create_body b"
    and "Product_findById d (b_productId b) = Found p"
    and "length (name p) \<le> 200"
    and "ai_response env = None"
    and "0 \<le> random1 env" and "random1 env \<le> 1 - 1 / 2 ^ 53"
  shows "route_create_report rt env (Authenticated u) d b =
      (let r = \<lparr>report_id = new_id env, productId = product_id p, userId = Some (user_id u),
                 summary = ''Analysis for '' @ name p
                    @ '': This product shows basic transparency with room for improvement.'',
                 transparencyScore =
                   spec_score (\<lfloor>fmul (random1 env) 40\<rfloor> + 40)
                     (completenessRatio (fallback_analysis (random1 env) p) (b_answersObj b))
                     (categoryBoost p),
                 analysis =
                   \<lparr>strengths = [''Product information provided'', ''Basic ingredient list available''],
                    improvements = [''Add sustainability data'', ''Include certification details''],
                    recommendations = [''Provide sourcing details'', ''Add eco-impact information'']\<rparr>,
                 answers = b_answersObj b, status = Completed, createdAt = now env\<rparr>
       in \<lparr>response = (201, ReportBody r), store = d\<lparr>reports := reports d @ [r]\<rparr>,
           effects = [AiRequest, ScorerRun, StoreWrite]\<rparr>)
     \<and> get_prop (fallback_analysis (random1 env) p) ''transparencyScore'' =
         JNum (Fin (of_int (\<lfloor>fmul (random1 env) 40\<rfloor> + 40)))
     \<and> 40 \<le> \<lfloor>fmul (random1 env) 40\<rfloor> + 40 \<and> \<lfloor>fmul (random1 env) 40\<rfloor> + 40 \<le> 79
     \<and> 0 \<le> transparencyScore (hd (reports_of (snd (response (route_create_report rt env (Authenticated u) d b)))))
     \<and> transparencyScore (hd (reports_of (snd (response (route_create_report rt env (Authenticated u) d b))))) \<le> 100"
proof -
  let ?fb = "fallback_analysis (random1 env) p"
  let ?n = "\<lfloor>fmul (random1 env) 40\<rfloor> + 40"
  have n: "40 \<le> ?n" "?n \<le> 79" using random_times_40[OF assms(5,6)] by simp_all
  then have b: "base rt (random2 env) ?fb = ?n" by (simp add: fallback_base)
  have sc: "deriveTransparencyScore rt (random2 env) ?fb p (b_answersObj b)
      = spec_score ?n (completenessRatio ?fb (b_answersObj b)) (categoryBoost p)"
    by (simp add: deriveTransparencyScore_spec b)
  have rng: "0 \<le> spec_score ?n (completenessRatio ?fb (b_answersObj b)) (categoryBoost p)"
    "spec_score ?n (completenessRatio ?fb (b_answersObj b)) (categoryBoost p) \<le> 100"
    using deriveTransparencyScore_bounds[of rt "random2 env" ?fb p "b_answersObj b"]
    unfolding sc by simp_all
  have nn: "?fb \<noteq> JUndefined" "?fb \<noteq> JNull" by (simp_all add: fallback_analysis_def)
  have cr: "Report_create rt env (b_productId b) (Some (user_id u))
       (get_prop ?fb ''summary'')
       (spec_score ?n (completenessRatio ?fb (b_answersObj b)) (categoryBoost p))
       (get_prop ?fb ''analysis'') (b_answersObj b) Completed
     = Some \<lparr>report_id = new_id env, productId = product_id p, userId = Some (user_id u),
                 summary = ''Analysis for '' @ name p
                    @ '': This product shows basic transparency with room for improvement.'',
                 transparencyScore =
                   spec_score ?n (completenessRatio ?fb (b_answersObj b)) (categoryBoost p),
                 analysis =
                   \<lparr>strengths = [''Product information provided'', ''Basic ingredient list available''],
                    improvements = [''Add sustainability data'', ''Include certification details''],
                    recommendations = [''Provide sourcing details'', ''Add eco-impact information'']\<rparr>,
                 answers = b_answersObj b, status = Completed, createdAt = now env\<rparr>"
    using rng assms(3) Product_findById_Found[OF assms(2)]
    by (simp add: Report_create_def fallback_summary_cast fallback_analysis_cast
        ReportSchema_valid_def)
  have main: "route_create_report rt env (Authenticated u) d b =
      (let r = \<lparr>report_id = new_id env, productId = product_id p, userId = Some (user_id u),
                 summary = ''Analysis for '' @ name p
                    @ '': This product shows basic transparency with room for improvement.'',
                 transparencyScore =
                   spec_score ?n (completenessRatio ?fb (b_answersObj b)) (categoryBoost p),
                 analysis =
                   \<lparr>strengths = [''Product information provided'', ''Basic ingredient list available''],
                    improvements = [''Add sustainability data'', ''Include certification details''],
                    recommendations = [''Provide sourcing details'', ''Add eco-impact information'']\<rparr>,
                 answers = b_answersObj b, status = Completed, createdAt = now env\<rparr>
       in \<lparr>response = (201, ReportBody r), store = d\<lparr>reports := reports d @ [r]\<rparr>,
           effects = [AiRequest, ScorerRun, StoreWrite]\<rparr>)"
    using assms(1,2,4) nn
    by (simp add: route_create_report_def post_report_def sc cr Let_def)
  show ?thesis
    unfolding main using n rng by (simp add: fallback_props(2) Let_def)
qed

text \<open>
  The premises hold for the product \<open>cream\<close> of the sample store when the AI service is down:
  the answer is 201, the fallback holds the score 50 and the report the score 75.
\<close>

theorem ai_failure_fallback_witness:
  "valid_create_body cream_answers
   \<and> Product_findById sample_db (b_productId cream_answers) = Found cream
   \<and> length (name cream) \<le> 200
   \<and> ai_response ai_down = None
   \<and> 0 \<le> random1 ai_down \<and> random1 ai_down \<le> 1 - 1 / 2 ^ 53
   \<and> fst (response (route_create_report sample_runtime ai_down (Authenticated alice) sample_db cream_answers)) = 201
   \<and> get_prop (fallback_analysis (random1 ai_down) cream) ''transparencyScore'' = JNum (Fin 50)
   \<and> map transparencyScore (reports_of (snd (response
         (route_create_report sample_runtime ai_down (Authenticated alice) sample_db cream_answers)))) = [75]"
proof -
  have v: "valid_create_body cream_answers" by code_simp
  have f: "Product_findById sample_db (b_productId cream_answers) = Found cream" by code_simp
  have l: "length (name cream) \<le> 200" by (simp add: cream_def)
  have a: "ai_response ai_down = None" by (simp add: ai_down_def)
  have r: "0 \<le> random1 ai_down" "random1 ai_down \<le> 1 - 1 / 2 ^ 53" by (simp_all add: ai_down_def)
  have n: "\<lfloor>fmul (random1 ai_down) 40\<rfloor> + 40 = 50" by code_simp
  have s: "spec_score 50 (completenessRatio (fallback_analysis (random1 ai_down) cream)
             (b_answersObj cream_answers)) (categoryBoost cream) = 75"
    by code_simp
  note t = ai_failure_fallback[OF v f l a r, of sample_runtime alice]
  from t have 1: "fst (response (route_create_report sample_runtime ai_down (Authenticated alice) sample_db cream_answers)) = 201"
    by (simp add: Let_def)
  from t have 2: "get_prop (fallback_analysis (random1 ai_down) cream) ''transparencyScore'' = JNum (Fin 50)"
    unfolding n by simp
  from t have 3: "map transparencyScore (reports_of (snd (response
         (route_create_report sample_runtime ai_down (Authenticated alice) sample_db cream_answers)))) = [75]"
    unfolding n s by (simp add: Let_def)
  from v f l a r 1 2 3 show ?thesis by simp
qed

text \<open>
  C5 does not hold of the code. The product id \<open>0x64b7f0c2a1d3e4f5a6b7c8\<close> has 24 characters and
  passes \<^verbatim>\<open>isMongoId\<close>, whose pattern admits the prefix \<open>0x\<close>; it matches no product, since it is
  no ObjectId at all. \<^verbatim>\<open>Product.findById\<close> throws a CastError and the handler answers 500, not
  404. Nothing is written and neither the AI service nor the scorer is called.
\<close>

theorem create_prefixed_id:
  "valid_create_body prefixed_answers
   \<and> Product_findById sample_db (b_productId prefixed_answers) = CastError
   \<and> route_create_report sample_runtime ai_down (Authenticated alice) sample_db prefixed_answers =
        \<lparr>response = (500, ErrorBody ''Server error creating report''), store = sample_db,
         effects = []\<rparr>"
  by code_simp

text \<open>
  On every other request the handler does what C5 says. Whenever no product is found,
  nothing is written and nothing is called; when the id of a validated request is an ObjectId
  that no product has, the answer is 404.
\<close>

lemma create_without_product:
  assumes "\<And>p. Product_findById d (b_productId b) \<noteq> Found p"
  shows "store (route_create_report rt env cred d b) = d"
    and "effects (route_create_report rt env cred d b) = []"
  using assms
  by (cases cred; cases "Product_findById d (b_productId b)";
      simp add: route_create_report_def post_report_def reply_def)+

lemma create_unknown_product:
  assumes "valid_create_body b" and "Product_findById d (b_productId b) = NotFound"
  shows "route_create_report rt env (Authenticated u) d b =
     \<lparr>response = (404, ErrorBody ''Product not found''), store = d, effects = []\<rparr>"
  using assms by (simp add: route_create_report_def post_report_def reply_def)

lemma create_unknown_product_example:
  "route_create_report sample_runtime ai_down (Authenticated alice) sample_db unknown_answers =
     \<lparr>response = (404, ErrorBody ''Product not found''), store = sample_db, effects = []\<rparr>"
  by code_simp

section \<open>Properties of the access to reports\<close>

text \<open>
  No handler removes the owner of a report or stores a report without one: a store whose
  reports have owners stays such a store under every request.
\<close>

lemma replaceOne_owned:
  "list_all P rs \<Longrightarrow> P r' \<Longrightarrow> list_all P (replaceOne i r' rs)"
  by (induction rs) auto

lemma deleteOne_owned:
  "list_all P rs \<Longrightarrow> list_all P (deleteOne i rs)"
  by (induction rs) auto

lemma Report_create_owned:
  "Report_create rt env pid uid sv sc av ans st = Some r \<Longrightarrow> userId r \<noteq> None"
  by (auto simp: Report_create_def ReportSchema_valid_def Let_def
      split: option.splits if_splits)

lemma update_report_owned:
  assumes "owned d"
  shows "owned (store (update_report rt d r b))"
proof (cases "assign_body rt r b")
  case None
  with assms show ?thesis by (simp add: update_report_def reply_def)
next
  case (Some r')
  show ?thesis
  proof (cases "ReportSchema_valid r'")
    case False
    with assms Some show ?thesis by (simp add: update_report_def reply_def)
  next
    case True
    then have "userId r' \<noteq> None" by (simp add: ReportSchema_valid_def)
    then have "list_all (\<lambda>r. userId r \<noteq> None) (replaceOne (report_id r) r' (reports d))"
      using assms unfolding owned_def by (intro replaceOne_owned)
    with Some True show ?thesis
      by (simp add: update_report_def owned_def Let_def split: option.splits)
  qed
qed

lemma owned_preserved:
  assumes "owned d"
  shows "owned (store (route_stats_overview cred d))"
    and "owned (store (route_list_reports cred d q))"
    and "owned (store (route_get_report cred d i))"
    and "owned (store (route_put_report rt cred d i ub))"
    and "owned (store (route_delete_report cred d i))"
    and "owned (store (route_create_report rt env cred d cb))"
proof -
  show "owned (store (route_stats_overview cred d))"
    using assms by (cases cred) (simp_all add: route_stats_overview_def get_stats_overview_def reply_def)
  show "owned (store (route_list_reports cred d q))"
    using assms by (cases cred) (simp_all add: route_list_reports_def get_reports_def reply_def Let_def)
  show "owned (store (route_get_report cred d i))"
    using assms
    by (cases cred) (simp_all add: route_get_report_def get_report_def reply_def split: found.splits)
  show "owned (store (route_put_report rt cred d i ub))"
    using assms update_report_owned[OF assms]
    by (cases cred)
      (simp_all add: route_put_report_def put_report_def reply_def split: found.splits)
  show "owned (store (route_delete_report cred d i))"
    using assms
    by (cases cred)
      (auto simp: route_delete_report_def delete_report_def reply_def owned_def
        split: found.splits intro!: deleteOne_owned)
  show "owned (store (route_create_report rt env cred d cb))"
  proof (cases cred)
    case (Authenticated u)
    with assms show ?thesis
      by (auto simp: route_create_report_def post_report_def reply_def Let_def owned_def
          split: option.splits prod.splits found.splits dest: Report_create_owned)
  qed (use assms in \<open>simp_all add: route_create_report_def reply_def\<close>)
qed




lemma get_reports_scoped:
  assumes "r \<in> set (reports_of (snd (response (get_reports d q (Some u)))))"
  shows "userId r = Some (user_id u)"
proof (cases "valid_list_query q")
  case False
  with assms show ?thesis by (simp add: get_reports_def reply_def)
next
  case True
  with assms have "r \<in> set (filter (list_filter (Some u) q) (reports d))"
    by (auto simp: get_reports_def reply_def Let_def dest!: in_set_takeD in_set_dropD)
  then show ?thesis by (simp add: list_filter_def)
qed

text \<open>
  C7. Every report in the answer of GET /api/reports belongs to the caller: the request is
  authenticated and the owner of the report is its user, for every store, every credential and
  every query (page, limit, status, minScore, maxScore).
\<close>

theorem list_scoped_to_caller:
  "\<forall>r \<in> set (reports_of (snd (response (route_list_reports cred d q)))).
      \<exists>u. cred = Authenticated u \<and> userId r = Some (user_id u)"
  using get_reports_scoped
  by (cases cred) (simp_all add: route_list_reports_def reply_def)

text \<open>In the sample store, the list of \<open>alice\<close> holds her report and not the one of \<open>bob\<close>.\<close>

theorem list_scoped_to_caller_witness:
  "reports_of (snd (response (route_list_reports (Authenticated alice) sample_db no_filters))) = [alice_report]
   \<and> alice_report \<in> set (reports_of (snd (response (route_list_reports (Authenticated alice) sample_db no_filters))))
   \<and> userId alice_report = Some (user_id alice)"
proof -
  have l: "reports_of (snd (response (route_list_reports (Authenticated alice) sample_db no_filters))) = [alice_report]"
    by code_simp
  then have m: "alice_report \<in> set (reports_of (snd (response (route_list_reports (Authenticated alice) sample_db no_filters))))"
    by simp
  from list_scoped_to_caller[of "Authenticated alice" sample_db no_filters] m
  have "userId alice_report = Some (user_id alice)" by blast
  with l m show ?thesis by simp
qed

section \<open>Properties of the statistics\<close>

text \<open>
  C8. When the store holds no report of the caller, the statistics are answered 200 with the
  zero defaults: no reports, an average, a maximum and a minimum of 0, no completed, pending
  or draft reports, and an empty histogram.
\<close>

theorem stats_empty_defaults:
  assumes "filter (\<lambda>r. userId r = Some (user_id u)) (reports d) = []"
  shows "route_stats_overview (Authenticated u) d =
     \<lparr>response = (200, StatsBody
         \<lparr>totalReports = 0, averageScore = 0, maxScore = 0, minScore = 0,
          completedReports = 0, pendingReports = 0, draftReports = 0\<rparr> []),
      store = d, effects = []\<rparr>"
  using assms
  by (simp add: route_stats_overview_def get_stats_overview_def matchStage_def reply_def
      zero_overview_def bucket_stage_def boundaries_def)

text \<open>A user without reports, on a store that holds a report of another user.\<close>

theorem stats_empty_defaults_witness:
  "filter (\<lambda>r. userId r = Some (user_id carol)) (reports sample_db) = []
   \<and> route_stats_overview (Authenticated carol) sample_db =
     \<lparr>response = (200, StatsBody
         \<lparr>totalReports = 0, averageScore = 0, maxScore = 0, minScore = 0,
          completedReports = 0, pendingReports = 0, draftReports = 0\<rparr> []),
      store = sample_db, effects = []\<rparr>"
proof -
  have h: "filter (\<lambda>r. userId r = Some (user_id carol)) (reports sample_db) = []"
    by code_simp
  from stats_empty_defaults[OF h] h show ?thesis by simp
qed

text \<open>
  C9 does not hold of the code. The last bucket of the \<^verbatim>\<open>$bucket\<close> stage is [80, 100), its
  upper boundary exclusive: a report with the score 100, which the schema allows, is counted
  in the default bucket \<^verbatim>\<open>Other\<close>. On a store with one such report the histogram is
  \<open>[(Other, 1)]\<close>.
\<close>

theorem histogram_score_100:
  "bucket_of boundaries 100 = Other
   \<and> snd (response (route_stats_overview
        (Authenticated \<lparr>user_id = ''54b7f0c2a1d3e4f5a6b7c8aa'', role = User\<rparr>)
        \<lparr>products = [],
         reports = [\<lparr>report_id = ''74b7f0c2a1d3e4f5a6b7c8d1'', productId = ''64b7f0c2a1d3e4f5a6b7c8d9'',
            userId = Some ''54b7f0c2a1d3e4f5a6b7c8aa'', summary = ''Full disclosure'',
            transparencyScore = 100,
            analysis = \<lparr>strengths = [], improvements = [], recommendations = []\<rparr>,
            answers = JObj [], status = Completed, createdAt = 1\<rparr>]\<rparr>))
     = StatsBody \<lparr>totalReports = 1, averageScore = 100, maxScore = 100, minScore = 100,
                  completedReports = 1, pendingReports = 0, draftReports = 0\<rparr>
         [(Other, 1)]"
  by code_simp

text \<open>Every score from 0 to 99 is counted in the bucket of its range of twenty.\<close>

lemma bucket_of_in_range:
  "0 \<le> v \<Longrightarrow> v < 100 \<Longrightarrow> bucket_of boundaries v = Lower (20 * (v div 20))"
  by (simp add: boundaries_def) presburger

end
